theory Spec2Isabelle
  imports Complex_Main
begin

section \<open>The notebooks' values\<close>

text \<open>
  The notebooks compute with Python numbers and one-dimensional arrays of the array
  library. A Python float is read here as a real number together with the one special
  value the notebooks produce, \<^verbatim>\<open>-np.inf\<close>; rounding of floating-point arithmetic is not
  part of the model. A one-dimensional array of floats is the list of its elements.

  The functions of the array library that the cells call (\<^verbatim>\<open>np.round\<close>, \<^verbatim>\<open>np.zeros\<close>,
  \<^verbatim>\<open>np.ones\<close>, assignment to a slice) are not code of the repository; each is given the
  meaning the library has for the arguments the cells pass.
\<close>

datatype pyfloat = NegInf | Val real

text \<open>
  \<^verbatim>\<open>np.round\<close> on a scalar: to the nearest integer, a tie going to the even neighbour.
\<close>

definition np_round :: "real \<Rightarrow> real" where
  "np_round x =
     (let f = \<lfloor>x\<rfloor>; d = x - of_int f
      in of_int (if d < 1 / 2 then f
                 else if 1 / 2 < d then f + 1
                 else if even f then f else f + 1))"

text \<open>\<^verbatim>\<open>np.zeros(n)\<close> and \<^verbatim>\<open>np.ones(n)\<close> for a length \<open>n\<close>.\<close>

definition np_zeros :: "nat \<Rightarrow> real list" where
  "np_zeros n = replicate n 0"

definition np_ones :: "nat \<Rightarrow> real list" where
  "np_ones n = replicate n 1"

text \<open>
  A bound \<open>i\<close> of a Python slice over a sequence of length \<open>n\<close>: a negative bound counts
  from the end, and the result is clipped to \<open>0..n\<close>.
\<close>

definition slice_bound :: "nat \<Rightarrow> int \<Rightarrow> nat" where
  "slice_bound n i =
     (if i < 0 then (if int n + i < 0 then 0 else nat (int n + i))
      else if int n < i then n else nat i)"

text \<open>
  \<^verbatim>\<open>a[start:stop] = v\<close> for a scalar \<open>v\<close>: every position of the slice receives \<open>v\<close>, the
  others keep their value. An omitted bound is \<open>None\<close>.
\<close>

definition setslice :: "real list \<Rightarrow> int option \<Rightarrow> int option \<Rightarrow> real \<Rightarrow> real list" where
  "setslice a start stop v =
     (let n = length a;
          lo = (case start of None \<Rightarrow> 0 | Some i \<Rightarrow> slice_bound n i);
          hi = (case stop of None \<Rightarrow> n | Some j \<Rightarrow> slice_bound n j)
      in take lo a @ replicate (hi - lo) v @ drop (max lo hi) a)"

section \<open>Introduction to NumPy\<close>

subsection \<open>Broadcasting of one-dimensional operands\<close>

text \<open>
  Modelled from the spec: the arithmetic operators of the array library are not code of
  this repository; the notebook calls them and states their rule, which is what the
  definitions below follow. In the notebook's words: for an array and a scalar the
  library may \<^emph>\<open>create\<close> a new array of length 1 and \<^emph>\<open>extend\<close> it to the size of the
  other operand (``the scalar 1.5 is effectively cast to a 1-dimensional array of
  length 1, then stretched to length 4''), after which the operation is element-wise;
  two dimensions are compatible when they are equal in size or one of them is of size 1,
  and ``if these conditions are not met, an exception is thrown, indicating that the
  arrays have incompatible shapes''. The exception is the library's
  \<^verbatim>\<open>ValueError: operands could not be broadcast together with shapes (m,) (n,)\<close>.
\<close>

datatype error = BroadcastError nat nat

definition compatible :: "nat \<Rightarrow> nat \<Rightarrow> bool" where
  "compatible m n = (m = n \<or> m = 1 \<or> n = 1)"

definition extend :: "nat \<Rightarrow> real list \<Rightarrow> real list" where
  "extend n xs = (if length xs = n then xs else replicate n (hd xs))"

definition broadcast :: "(real \<Rightarrow> real \<Rightarrow> real) \<Rightarrow> real list \<Rightarrow> real list \<Rightarrow> error + real list" where
  "broadcast f xs ys =
     (let m = length xs; n = length ys
      in if compatible m n
         then (let k = (if m = 1 then n else m)
               in Inr (map2 f (extend k xs) (extend k ys)))
         else Inl (BroadcastError m n))"

text \<open>
  \<^verbatim>\<open>a + b\<close> for two arrays, \<^verbatim>\<open>a + s\<close> for an array and a scalar, and \<^verbatim>\<open>s * a\<close> for a
  scalar and an array. The scalar is cast to the array of length 1 that holds it.
\<close>

definition np_add :: "real list \<Rightarrow> real list \<Rightarrow> error + real list" where
  "np_add a b = broadcast (+) a b"

definition np_add_scalar :: "real list \<Rightarrow> real \<Rightarrow> error + real list" where
  "np_add_scalar a s = np_add a [s]"

definition np_scalar_mul :: "real \<Rightarrow> real list \<Rightarrow> error + real list" where
  "np_scalar_mul s a = broadcast (*) [s] a"

subsection \<open>The notebook's cells\<close>

text \<open>
  \<^verbatim>\<open>sample1, sample2 = np.array([632, 1638, 569, 115]), np.array([433,1130,754,555])\<close>
\<close>

definition sample1 :: "real list" where
  "sample1 = [632, 1638, 569, 115]"

definition sample2 :: "real list" where
  "sample2 = [433, 1130, 754, 555]"

text \<open>
  \<^verbatim>\<open>a + s*np.ones(len(a))\<close>, the cell \<^verbatim>\<open>sample1 + 1.5*np.ones(4)\<close> for any array and
  scalar: an exception of the product is the exception of the whole expression.
\<close>

definition add_scaled_ones :: "real list \<Rightarrow> real \<Rightarrow> error + real list" where
  "add_scaled_ones a s =
     (case np_scalar_mul s (np_ones (length a)) of
        Inl e \<Rightarrow> Inl e
      | Inr c \<Rightarrow> np_add a c)"

section \<open>Model Building with PyMC\<close>

subsection \<open>The switchpoint variable\<close>

text \<open>
  The decorator interface:
  \<^verbatim>\<open>
  @pm.stochastic
  def switchpoint(value=1900, t_l=1851, t_h=1962):
      if value > t_h or value < t_l:
          return -np.inf
      else:
          return -np.log(t_h - t_l + 1)
  \<close>
\<close>

definition switchpoint :: "real \<Rightarrow> real \<Rightarrow> real \<Rightarrow> pyfloat" where
  "switchpoint value t_l t_h =
     (if t_h < value \<or> value < t_l then NegInf
      else Val (- ln (t_h - t_l + 1)))"

text \<open>
  The direct interface:
  \<^verbatim>\<open>
  def switchpoint_logp(value, t_l, t_h):
      if value > t_h or value < t_l:
          return -np.inf
      else:
          return -np.log(t_h - t_l + 1)

  def switchpoint_rand(t_l, t_h):
      return np.round( (t_l - t_h) * np.random.random() ) + t_l
  \<close>
  The draw of \<^verbatim>\<open>np.random.random()\<close>, a float of the half-open interval from 0 to 1, is
  the argument \<open>r\<close>.
\<close>

definition switchpoint_logp :: "real \<Rightarrow> real \<Rightarrow> real \<Rightarrow> pyfloat" where
  "switchpoint_logp value t_l t_h =
     (if t_h < value \<or> value < t_l then NegInf
      else Val (- ln (t_h - t_l + 1)))"

definition switchpoint_rand :: "real \<Rightarrow> real \<Rightarrow> real \<Rightarrow> real" where
  "switchpoint_rand t_l t_h r = np_round ((t_l - t_h) * r) + t_l"

subsection \<open>The deterministic variable rate\<close>

text \<open>
  The decorator interface:
  \<^verbatim>\<open>
  @pm.deterministic
  def rate(s=switchpoint, e=early_mean, l=late_mean):
      out = np.empty(len(disaster_model.disasters_array))
      out[:s] = e
      out[s:] = l
      return out
  \<close>
  \<^verbatim>\<open>np.empty\<close> returns an array whose contents are whatever the memory held; the array it
  returns is the argument \<open>out\<close>.
\<close>

definition rate :: "real list \<Rightarrow> int \<Rightarrow> real \<Rightarrow> real \<Rightarrow> real list" where
  "rate out s e l =
     (let out = setslice out None (Some s) e;
          out = setslice out (Some s) None l
      in out)"

text \<open>
  The direct interface:
  \<^verbatim>\<open>
  def rate_eval(switchpoint=switchpoint, early_mean=early_mean, late_mean=late_mean):
      value = np.zeros(111)
      value[:switchpoint] = early_mean
      value[switchpoint:] = late_mean
      return value
  \<close>
  The parameter \<^verbatim>\<open>switchpoint\<close> is written \<open>switchpoint_value\<close>: it holds the value of the
  parent, an integer.
\<close>

definition rate_eval :: "int \<Rightarrow> real \<Rightarrow> real \<Rightarrow> real list" where
  "rate_eval switchpoint_value early_mean late_mean =
     (let value = np_zeros 111;
          value = setslice value None (Some switchpoint_value) early_mean;
          value = setslice value (Some switchpoint_value) None late_mean
      in value)"

subsection \<open>The potential rate_constraint\<close>

text \<open>
  The decorator interface and the direct one have the same body:
  \<^verbatim>\<open>
  @pm.potential
  def rate_constraint(l1=early_mean, l2=late_mean):
      if np.abs(l2 - l1) > 1:
          return -np.inf
      return 0

  def rate_constraint_logp(l1=early_mean, l2=late_mean):
      if np.abs(l2 - l1) > 1:
          return -np.inf
      return 0
  \<close>
\<close>

definition rate_constraint :: "real \<Rightarrow> real \<Rightarrow> pyfloat" where
  "rate_constraint l1 l2 = (if 1 < \<bar>l2 - l1\<bar> then NegInf else Val 0)"

definition rate_constraint_logp :: "real \<Rightarrow> real \<Rightarrow> pyfloat" where
  "rate_constraint_logp l1 l2 = (if 1 < \<bar>l2 - l1\<bar> then NegInf else Val 0)"

section \<open>Properties of the model-building notebook\<close>

lemma slice_bound_in_range: "0 \<le> i \<Longrightarrow> i \<le> int n \<Longrightarrow> slice_bound n i = nat i"
  by (simp add: slice_bound_def)

lemma length_setslice: "length (setslice a start stop v) = length a"
  by (auto simp: setslice_def Let_def slice_bound_def split: option.splits)

lemma setslice_upto:
  "0 \<le> s \<Longrightarrow> s \<le> int (length a) \<Longrightarrow>
   setslice a None (Some s) v = replicate (nat s) v @ drop (nat s) a"
  by (simp add: setslice_def Let_def slice_bound_in_range)

lemma setslice_from:
  "0 \<le> s \<Longrightarrow> s \<le> int (length a) \<Longrightarrow>
   setslice a (Some s) None v = take (nat s) a @ replicate (length a - nat s) v"
proof -
  assume "0 \<le> s" and "s \<le> int (length a)"
  then have "slice_bound (length a) s = nat s" and "nat s \<le> length a"
    by (simp_all add: slice_bound_in_range)
  then show ?thesis
    by (simp add: setslice_def Let_def max_def)
qed

lemma rate_closed_form:
  assumes "0 \<le> s" and "s \<le> int (length out)"
  shows "rate out s e l = replicate (nat s) e @ replicate (length out - nat s) l"
proof -
  have "nat s \<le> length out" using assms by simp
  then show ?thesis
    using assms by (simp add: rate_def Let_def setslice_upto setslice_from)
qed

lemma rate_eval_closed_form:
  assumes "0 \<le> s" and "s \<le> 111"
  shows "rate_eval s e l = replicate (nat s) e @ replicate (111 - nat s) l"
proof -
  have "nat s \<le> 111" using assms by simp
  then show ?thesis
    using assms by (simp add: rate_eval_def np_zeros_def Let_def setslice_upto setslice_from)
qed

text \<open>
  C6. For every integer switchpoint \<open>s\<close> from 0 to 111 and all means \<open>e\<close> and \<open>l\<close>,
  \<open>rate_eval s e l\<close> is an array of length 111 whose entries at the indices below \<open>s\<close> are
  \<open>e\<close> and whose entries at the indices from \<open>s\<close> to 110 are \<open>l\<close>: the value is a function
  of the three parents alone.
\<close>

theorem rate_eval_entries:
  assumes "0 \<le> s" and "s \<le> 111"
  shows "length (rate_eval s e l) = 111
       \<and> (\<forall>i. i < nat s \<longrightarrow> rate_eval s e l ! i = e)
       \<and> (\<forall>i. nat s \<le> i \<and> i < 111 \<longrightarrow> rate_eval s e l ! i = l)"
proof -
  have cf: "rate_eval s e l = replicate (nat s) e @ replicate (111 - nat s) l"
    using assms by (rule rate_eval_closed_form)
  have le: "nat s \<le> 111" using assms by simp
  have "length (rate_eval s e l) = 111"
    using le by (simp add: cf)
  moreover have "\<forall>i. i < nat s \<longrightarrow> rate_eval s e l ! i = e"
    by (simp add: cf nth_append)
  moreover have "\<forall>i. nat s \<le> i \<and> i < 111 \<longrightarrow> rate_eval s e l ! i = l"
    by (auto simp: cf nth_append)
  ultimately show ?thesis by blast
qed

theorem rate_eval_entries_witness:
  "length (rate_eval 41 3 1) = 111 \<and> rate_eval 41 3 1 ! 40 = 3 \<and> rate_eval 41 3 1 ! 41 = 1
   \<and> rate_eval 41 3 1 ! 110 = 1"
proof -
  have h0: "(0::int) \<le> 41" and h1: "(41::int) \<le> 111" by simp_all
  have "(40::nat) < nat 41" and "nat 41 \<le> (41::nat) \<and> (41::nat) < 111"
    and "nat 41 \<le> (110::nat) \<and> (110::nat) < 111" by simp_all
  then show ?thesis
    using rate_eval_entries [OF h0 h1, of 3 1] by blast
qed

text \<open>
  C7. The potential's log-probability is 0 when the two rates differ by at most 1 and
  minus infinity when they differ by more than 1, in the decorator definition and in the
  direct one.
\<close>

theorem rate_constraint_cases:
  "(\<bar>l2 - l1\<bar> \<le> 1 \<longrightarrow> rate_constraint l1 l2 = Val 0 \<and> rate_constraint_logp l1 l2 = Val 0)
 \<and> (1 < \<bar>l2 - l1\<bar> \<longrightarrow> rate_constraint l1 l2 = NegInf \<and> rate_constraint_logp l1 l2 = NegInf)"
  by (simp add: rate_constraint_def rate_constraint_logp_def)

theorem rate_constraint_cases_witness:
  "rate_constraint 1 2 = Val 0 \<and> rate_constraint_logp 1 2 = Val 0
 \<and> rate_constraint 3 (1 / 2) = NegInf \<and> rate_constraint_logp 3 (1 / 2) = NegInf"
proof -
  have a: "\<bar>2 - 1 :: real\<bar> \<le> 1" by simp
  have b: "1 < \<bar>1 / 2 - 3 :: real\<bar>" by simp
  show ?thesis
    using rate_constraint_cases [of 2 1] rate_constraint_cases [of "1 / 2" 3] a b by blast
qed

text \<open>
  C9. The log-probability function of the decorator interface and \<open>switchpoint_logp\<close> of
  the direct interface are the same function: minus infinity when the value is above
  \<open>t_h\<close> or below \<open>t_l\<close>, and \<open>- log (t_h - t_l + 1)\<close> otherwise.
\<close>

theorem switchpoint_interfaces_agree:
  "switchpoint = switchpoint_logp
 \<and> switchpoint_logp value t_l t_h =
     (if t_h < value \<or> value < t_l then NegInf else Val (- ln (t_h - t_l + 1)))"
  by (simp add: fun_eq_iff switchpoint_def switchpoint_logp_def)

lemma switchpoint_logp_inside:
  assumes "t_l \<le> value" and "value \<le> t_h"
  shows "switchpoint_logp value t_l t_h = Val (- ln (t_h - t_l + 1)) \<and> 1 \<le> t_h - t_l + 1"
  using assms by (simp add: switchpoint_logp_def)

lemma np_round_bounds: "of_int \<lfloor>x\<rfloor> \<le> np_round x \<and> np_round x \<le> of_int \<lfloor>x\<rfloor> + 1"
  by (simp add: np_round_def Let_def)

lemma np_round_of_int: "np_round (of_int k) = of_int k"
  by (simp add: np_round_def Let_def)

lemma np_round_nonpos:
  assumes "x \<le> 0"
  shows "np_round x \<le> 0"
proof (cases "\<lfloor>x\<rfloor> = 0")
  case True
  then have "0 \<le> x" by linarith
  with assms have "x = of_int 0" by simp
  then show ?thesis
    using np_round_of_int [of 0] by simp
next
  case False
  have "\<lfloor>x\<rfloor> \<le> 0" using assms by linarith
  with False have "\<lfloor>x\<rfloor> + 1 \<le> 0" by linarith
  then have "(of_int \<lfloor>x\<rfloor> :: real) + 1 \<le> 0"
    by (metis of_int_1 of_int_add of_int_le_0_iff)
  then show ?thesis
    using np_round_bounds [of x] by linarith
qed

text \<open>
  Every value \<open>switchpoint_rand\<close> returns for the parents 1851 and 1962 lies between 1740
  and 1851: the interval is the mirror image, at \<open>t_l\<close>, of the support 1851..1962.
\<close>

lemma switchpoint_rand_range:
  assumes "0 \<le> r" and "r < 1"
  shows "1740 \<le> switchpoint_rand 1851 1962 r \<and> switchpoint_rand 1851 1962 r \<le> 1851"
proof -
  let ?x = "(1851 - 1962) * r"
  have x: "?x \<le> 0" "- 111 < ?x" using assms by simp_all
  have "- 111 \<le> \<lfloor>?x\<rfloor>" using x(2) by linarith
  then have "(- 111 :: real) \<le> of_int \<lfloor>?x\<rfloor>"
    by (metis of_int_le_iff of_int_minus of_int_numeral)
  then have "- 111 \<le> np_round ?x"
    using np_round_bounds [of ?x] by linarith
  moreover have "np_round ?x \<le> 0"
    using x(1) by (rule np_round_nonpos)
  ultimately show ?thesis
    by (simp add: switchpoint_rand_def)
qed

text \<open>
  C8. \<open>switchpoint_rand\<close> multiplies the draw by \<open>t_l - t_h\<close>, a negative number, so its
  values lie at or below \<open>t_l\<close>. With \<open>t_l = 1851\<close>, \<open>t_h = 1962\<close> and the draw \<open>1/4\<close> it
  returns 1823, which is outside the support 1851..1962 of the variable, and the
  log-probability of that value is minus infinity.
\<close>

theorem switchpoint_rand_leaves_support:
  "switchpoint_rand 1851 1962 (1 / 4) = 1823
 \<and> switchpoint_rand 1851 1962 (1 / 4) < 1851
 \<and> switchpoint_logp (switchpoint_rand 1851 1962 (1 / 4)) 1851 1962 = NegInf"
proof -
  have fl: "\<lfloor>- (111 / 4) :: real\<rfloor> = - 28" by simp
  have r: "switchpoint_rand 1851 1962 (1 / 4) = 1823"
    by (simp add: switchpoint_rand_def np_round_def Let_def fl)
  show ?thesis
    by (simp add: r switchpoint_logp_def)
qed

section \<open>Properties of the NumPy notebook\<close>

lemma map2_replicate_right:
  "map2 f xs (replicate (length xs) c) = map (\<lambda>x. f x c) xs"
  by (induction xs) simp_all

lemma map2_replicate_left:
  "map2 f (replicate (length ys) c) ys = map (f c) ys"
  by (induction ys) simp_all

lemma np_add_same_length:
  "length a = length b \<Longrightarrow> np_add a b = Inr (map2 (+) a b)"
  by (simp add: np_add_def broadcast_def compatible_def extend_def Let_def)

lemma np_add_scalar_eq: "np_add_scalar a s = Inr (map (\<lambda>x. x + s) a)"
proof (cases "length a = 1")
  case True
  then obtain x where "a = [x]"
    by (cases a) simp_all
  then show ?thesis
    by (simp add: np_add_scalar_def np_add_def broadcast_def compatible_def extend_def)
next
  case False
  then have "np_add_scalar a s = Inr (map2 (+) a (replicate (length a) s))"
    by (simp add: np_add_scalar_def np_add_def broadcast_def compatible_def extend_def Let_def)
  then show ?thesis
    by (simp add: map2_replicate_right)
qed

lemma np_scalar_mul_ones: "np_scalar_mul s (np_ones n) = Inr (replicate n s)"
proof (cases "n = 1")
  case True
  then show ?thesis
    by (simp add: np_scalar_mul_def np_ones_def broadcast_def compatible_def extend_def)
next
  case False
  have "map2 (*) (replicate (length (replicate n (1::real))) s) (replicate n 1) =
        map ((*) s) (replicate n (1::real))"
    by (rule map2_replicate_left)
  then have "map2 (*) (replicate n s) (replicate n (1::real)) = replicate n s"
    by simp
  with False show ?thesis
    by (simp add: np_scalar_mul_def np_ones_def broadcast_def compatible_def extend_def Let_def)
qed

lemma add_scaled_ones_eq: "add_scaled_ones a s = Inr (map (\<lambda>x. x + s) a)"
proof -
  have "np_add a (replicate (length a) s) = Inr (map2 (+) a (replicate (length a) s))"
    by (rule np_add_same_length) simp
  then show ?thesis
    by (simp add: add_scaled_ones_def np_scalar_mul_ones map2_replicate_right)
qed

text \<open>
  C5. For every one-dimensional array \<open>a\<close> and scalar \<open>s\<close>, \<open>a + s\<close> is the array
  \<open>a + s*np.ones(len(a))\<close>; for \<open>sample1\<close> and 1.5 both are 633.5, 1639.5, 570.5, 116.5.
\<close>

theorem scalar_broadcast_eq_ones:
  "np_add_scalar a s = add_scaled_ones a s
 \<and> np_add_scalar sample1 (3 / 2) = Inr [1267 / 2, 3279 / 2, 1141 / 2, 233 / 2]
 \<and> add_scaled_ones sample1 (3 / 2) = Inr [1267 / 2, 3279 / 2, 1141 / 2, 233 / 2]"
  by (simp add: np_add_scalar_eq add_scaled_ones_eq sample1_def)

text \<open>
  C2. Adding two one-dimensional arrays whose lengths are neither equal nor 1 raises the
  exception for incompatible shapes and gives no array; the notebook's case is
  \<open>sample1 + np.array([7,8])\<close>, of lengths 4 and 2.
\<close>

theorem np_add_incompatible:
  assumes "length a \<noteq> length b" and "length a \<noteq> 1" and "length b \<noteq> 1"
  shows "np_add a b = Inl (BroadcastError (length a) (length b))"
  using assms by (simp add: np_add_def broadcast_def compatible_def)

theorem np_add_incompatible_witness:
  "np_add sample1 [7, 8] = Inl (BroadcastError 4 2)"
proof -
  have "length sample1 \<noteq> length [7, 8 :: real]" and "length sample1 \<noteq> 1"
    and "length [7, 8 :: real] \<noteq> 1"
    by (simp_all add: sample1_def)
  then have "np_add sample1 [7, 8] = Inl (BroadcastError (length sample1) (length [7, 8 :: real]))"
    by (rule np_add_incompatible)
  then show ?thesis
    by (simp add: sample1_def)
qed

end
